theory Spec2Isabelle
  imports Main "HOL-Library.Word"
begin

unbundle bit_operations_syntax

section \<open>Bytes, hashes and big-endian encodings\<close>

type_synonym byte = "8 word"
type_synonym bytes = "byte list"
type_synonym uint16 = "16 word"
type_synonym uint64 = "64 word"

text \<open>
  \<^verbatim>\<open>common.Hash\<close> is a 32-byte array. It is represented by the 256-bit word whose
  big-endian bytes are the array, so that the zero value of the Go type is \<open>0\<close>.
\<close>

type_synonym Hash = "256 word"

text \<open>The \<open>n\<close> low bytes of a word, most significant first.\<close>

primrec be_bytes :: "nat \<Rightarrow> 'a::len word \<Rightarrow> bytes" where
  "be_bytes 0 v = []"
| "be_bytes (Suc n) v = ucast (drop_bit (8 * n) v) # be_bytes n v"

text \<open>A byte string read as a big-endian number.\<close>

definition be_word :: "bytes \<Rightarrow> 'a::len word" where
  "be_word bs = foldl (\<lambda>acc b. push_bit 8 acc OR ucast b) 0 bs"

text \<open>
  \<^verbatim>\<open>binary.BigEndian.PutUint64\<close> and \<^verbatim>\<open>PutUint16\<close> of the Go standard library:
  \<^verbatim>\<open>b[0] = byte(v >> 56); ...; b[7] = byte(v)\<close>.
\<close>

definition PutUint64 :: "uint64 \<Rightarrow> bytes" where
  "PutUint64 v =
     [ucast (drop_bit 56 v), ucast (drop_bit 48 v), ucast (drop_bit 40 v), ucast (drop_bit 32 v),
      ucast (drop_bit 24 v), ucast (drop_bit 16 v), ucast (drop_bit 8 v), ucast v]"

definition PutUint16 :: "uint16 \<Rightarrow> bytes" where
  "PutUint16 v = [ucast (drop_bit 8 v), ucast v]"

text \<open>\<^verbatim>\<open>Hash.Bytes()\<close>: the 32 bytes of the array.\<close>

definition Hash_Bytes :: "Hash \<Rightarrow> bytes" where
  "Hash_Bytes h = be_bytes 32 h"

text \<open>
  \<^verbatim>\<open>common.BytesToHash\<close>: if the input is longer than 32 bytes it is cropped from the
  left; the rest is copied right-aligned into a zeroed array.
\<close>

definition BytesToHash :: "bytes \<Rightarrow> Hash" where
  "BytesToHash b =
     (let b' = (if length b > 32 then drop (length b - 32) b else b)
      in be_word (replicate (32 - length b') 0 @ b'))"

section \<open>The key-value store\<close>

text \<open>Go \<^verbatim>\<open>error\<close> values raised by the collaborators; \<open>None\<close> of \<open>error option\<close> is \<^verbatim>\<open>nil\<close>.\<close>

datatype error = ErrNotFound | ErrStorage | ErrMissingNode | ErrTrieCommit | ErrDecompress

text \<open>
  Modelled from the spec: the key-value store \<^verbatim>\<open>ethdb.Database\<close>, an interface whose
  implementations are in another package. The spec gives \<^verbatim>\<open>Get(key) -> (value, error)\<close> and
  \<^verbatim>\<open>Put(key, value) -> error\<close>. A read of an absent key yields no data and a not-found
  error; while the storage engine is failing, every access yields a storage error, a read
  yields no data and a write changes nothing.
\<close>

record Database =
  entries :: "bytes \<rightharpoonup> bytes"
  failing :: bool

definition Database_Get :: "Database \<Rightarrow> bytes \<Rightarrow> bytes \<times> error option" where
  "Database_Get db key =
     (if failing db then ([], Some ErrStorage)
      else case entries db key of
             None \<Rightarrow> ([], Some ErrNotFound)
           | Some v \<Rightarrow> (v, None))"

definition Database_Put :: "Database \<Rightarrow> bytes \<Rightarrow> bytes \<Rightarrow> Database \<times> error option" where
  "Database_Put db key val =
     (if failing db then (db, Some ErrStorage)
      else (db\<lparr>entries := (entries db)(key \<mapsto> val)\<rparr>, None))"

section \<open>Section roots: constants and the root store\<close>

definition CHTFrequencyClient :: nat where "CHTFrequencyClient = 32768"
definition CHTFrequencyServer :: nat where "CHTFrequencyServer = 4096"
definition HelperTrieConfirmations :: nat where "HelperTrieConfirmations = 2048"
definition HelperTrieProcessConfirmations :: nat where "HelperTrieProcessConfirmations = 256"

definition chtPrefix :: bytes where
  "chtPrefix = map of_char ''chtRoot-''"

definition GetChtRoot :: "Database \<Rightarrow> uint64 \<Rightarrow> Hash \<Rightarrow> Hash" where
  "GetChtRoot db sectionIdx sectionHead =
     (let (data, _) = Database_Get db (chtPrefix @ PutUint64 sectionIdx @ Hash_Bytes sectionHead)
      in BytesToHash data)"

definition GetChtV2Root :: "Database \<Rightarrow> uint64 \<Rightarrow> Hash \<Rightarrow> Hash" where
  "GetChtV2Root db sectionIdx sectionHead =
     GetChtRoot db ((sectionIdx + 1) * of_nat (CHTFrequencyClient div CHTFrequencyServer) - 1)
       sectionHead"

text \<open>\<^verbatim>\<open>StoreChtRoot\<close> has no result; the error of \<^verbatim>\<open>db.Put\<close> is dropped.\<close>

definition StoreChtRoot :: "Database \<Rightarrow> uint64 \<Rightarrow> Hash \<Rightarrow> Hash \<Rightarrow> Database" where
  "StoreChtRoot db sectionIdx sectionHead root =
     (let (db', _) = Database_Put db (chtPrefix @ PutUint64 sectionIdx @ Hash_Bytes sectionHead)
                       (Hash_Bytes root)
      in db')"

definition BloomTrieFrequency :: nat where "BloomTrieFrequency = 32768"
definition ethBloomBitsSection :: nat where "ethBloomBitsSection = 4096"
definition ethBloomBitsConfirmations :: nat where "ethBloomBitsConfirmations = 256"

definition bloomTriePrefix :: bytes where
  "bloomTriePrefix = map of_char ''bltRoot-''"

definition GetBloomTrieRoot :: "Database \<Rightarrow> uint64 \<Rightarrow> Hash \<Rightarrow> Hash" where
  "GetBloomTrieRoot db sectionIdx sectionHead =
     (let (data, _) =
            Database_Get db (bloomTriePrefix @ PutUint64 sectionIdx @ Hash_Bytes sectionHead)
      in BytesToHash data)"

definition StoreBloomTrieRoot :: "Database \<Rightarrow> uint64 \<Rightarrow> Hash \<Rightarrow> Hash \<Rightarrow> Database" where
  "StoreBloomTrieRoot db sectionIdx sectionHead root =
     (let (db', _) =
            Database_Put db (bloomTriePrefix @ PutUint64 sectionIdx @ Hash_Bytes sectionHead)
              (Hash_Bytes root)
      in db')"

text \<open>
  The two kinds of section root, to state properties of both stores at once: the key of
  an entry, a write and a read by kind, and a sequence of writes.
\<close>

datatype kind = CHT | BloomTrie

fun rootKey :: "kind \<Rightarrow> uint64 \<Rightarrow> Hash \<Rightarrow> bytes" where
  "rootKey CHT sectionIdx sectionHead = chtPrefix @ PutUint64 sectionIdx @ Hash_Bytes sectionHead"
| "rootKey BloomTrie sectionIdx sectionHead =
     bloomTriePrefix @ PutUint64 sectionIdx @ Hash_Bytes sectionHead"

fun GetRoot :: "kind \<Rightarrow> Database \<Rightarrow> uint64 \<Rightarrow> Hash \<Rightarrow> Hash" where
  "GetRoot CHT db sectionIdx sectionHead = GetChtRoot db sectionIdx sectionHead"
| "GetRoot BloomTrie db sectionIdx sectionHead = GetBloomTrieRoot db sectionIdx sectionHead"

fun StoreRoot :: "kind \<Rightarrow> Database \<Rightarrow> uint64 \<Rightarrow> Hash \<Rightarrow> Hash \<Rightarrow> Database" where
  "StoreRoot CHT db sectionIdx sectionHead root = StoreChtRoot db sectionIdx sectionHead root"
| "StoreRoot BloomTrie db sectionIdx sectionHead root =
     StoreBloomTrieRoot db sectionIdx sectionHead root"

fun StoreRoots :: "Database \<Rightarrow> (kind \<times> uint64 \<times> Hash \<times> Hash) list \<Rightarrow> Database" where
  "StoreRoots db [] = db"
| "StoreRoots db ((k, sectionIdx, sectionHead, root) # ws) =
     StoreRoots (StoreRoot k db sectionIdx sectionHead root) ws"

section \<open>Collaborators of the indexer backends\<close>

text \<open>
  Modelled from the spec: \<^verbatim>\<open>types.Header\<close>, which is defined in another package. The
  backends use its block number and its hash only; the hash, which Go computes from the
  header's contents, is a field here.
\<close>

record Header =
  Number :: nat
  HeaderHash :: Hash

definition Header_Hash :: "Header \<Rightarrow> Hash" where
  "Header_Hash header = HeaderHash header"

text \<open>\<^verbatim>\<open>big.Int.Uint64()\<close>: the low 64 bits of a non-negative number.\<close>

definition Uint64 :: "nat \<Rightarrow> uint64" where
  "Uint64 n = word_of_nat n"

text \<open>
  Modelled from the spec: \<^verbatim>\<open>types.BloomBitLength\<close>, the width of the bloom filter
  (bit positions 0..2047).
\<close>

definition BloomBitLength :: nat where "BloomBitLength = 2048"

definition ChtTablePrefix :: bytes where
  "ChtTablePrefix = map of_char ''cht-''"

definition BloomTrieTablePrefix :: bytes where
  "BloomTrieTablePrefix = map of_char ''blt-''"

text \<open>A call of a Go function either panics or returns.\<close>

datatype 'a outcome = panics: Panics | Returns (returned: 'a)

text \<open>
  The functions of the packages \<^verbatim>\<open>trie\<close>, \<^verbatim>\<open>rawdb\<close>, \<^verbatim>\<open>rlp\<close> and \<^verbatim>\<open>bitutil\<close> that the
  backends call are parameters of the model, with the signatures the calls have: \<open>'t\<close> is an open trie, \<open>'tdb\<close> the trie node database (its table of the disk
  database has a key prefix of its own, \<^verbatim>\<open>cht-\<close> or \<^verbatim>\<open>blt-\<close>, and is part of \<open>'tdb\<close>).
  \<^item> \<^verbatim>\<open>trie.New(root, db) (*Trie, error)\<close>; a \<^verbatim>\<open>nil\<close> trie is \<open>None\<close>;
  \<^item> \<^verbatim>\<open>t.Update(key, value)\<close>, \<^verbatim>\<open>t.Delete(key)\<close> change the trie in place;
  \<^item> \<^verbatim>\<open>t.Commit(nil) (root, error)\<close> changes the trie and the node database;
  \<^item> \<^verbatim>\<open>triedb.Commit(root, false)\<close>, whose error the source drops;
  \<^item> \<^verbatim>\<open>rawdb.ReadTd(db, hash, number) *big.Int\<close>, \<^verbatim>\<open>nil\<close> when absent; a total
    difficulty read from the database is never negative;
  \<^item> \<^verbatim>\<open>rawdb.ReadBloomBits(db, bit, section, head) ([]byte, error)\<close>;
  \<^item> \<^verbatim>\<open>rlp.EncodeToBytes(ChtNode{hash, td}) ([]byte, error)\<close>;
  \<^item> \<^verbatim>\<open>bitutil.DecompressBytes(data, target) ([]byte, error)\<close> and
    \<^verbatim>\<open>bitutil.CompressBytes(data) []byte\<close>.
\<close>

record ('t, 'tdb) Collaborators =
  trie_NewDatabase :: "bytes \<Rightarrow> 'tdb"
  trie_New :: "Hash \<Rightarrow> 'tdb \<Rightarrow> 't option \<times> error option"
  trie_Update :: "'t \<Rightarrow> bytes \<Rightarrow> bytes \<Rightarrow> 't"
  trie_Delete :: "'t \<Rightarrow> bytes \<Rightarrow> 't"
  trie_Commit :: "'t \<Rightarrow> 'tdb \<Rightarrow> 't \<times> 'tdb \<times> Hash \<times> error option"
  triedb_Commit :: "'tdb \<Rightarrow> Hash \<Rightarrow> 'tdb"
  ReadTd :: "Database \<Rightarrow> Hash \<Rightarrow> uint64 \<Rightarrow> nat option"
  ReadBloomBits :: "Database \<Rightarrow> nat \<Rightarrow> uint64 \<Rightarrow> Hash \<Rightarrow> bytes \<times> error option"
  rlp_EncodeToBytes :: "Hash \<Rightarrow> nat \<Rightarrow> bytes \<times> error option"
  DecompressBytes :: "bytes \<Rightarrow> int \<Rightarrow> bytes \<times> error option"
  CompressBytes :: "bytes \<Rightarrow> bytes"

text \<open>
  What a constructor hands to \<^verbatim>\<open>core.NewChainIndexer\<close>, the driver of the backend: the
  backend, the section size and the number of confirmations.
\<close>

record 'b ChainIndexer =
  backend :: 'b
  indexerSectionSize :: uint64
  confirmsReq :: uint64

section \<open>The CHT indexer backend\<close>

text \<open>The fields of the Go struct, named after the receiver \<^verbatim>\<open>c\<close>.\<close>

record ('t, 'tdb) ChtIndexerBackend =
  c_diskdb :: Database
  c_triedb :: 'tdb
  c_section :: uint64
  c_sectionSize :: uint64
  c_lastHash :: Hash
  c_trie :: "'t option"

definition NewChtIndexer ::
  "('t, 'tdb) Collaborators \<Rightarrow> Database \<Rightarrow> bool \<Rightarrow> ('t, 'tdb) ChtIndexerBackend ChainIndexer"
where
  "NewChtIndexer ext db clientMode =
     (let (sectionSize, confirmReq) =
            (if clientMode then (of_nat CHTFrequencyClient, of_nat HelperTrieConfirmations)
             else (of_nat CHTFrequencyServer, of_nat HelperTrieProcessConfirmations));
          backend = \<lparr>c_diskdb = db, c_triedb = trie_NewDatabase ext ChtTablePrefix,
                     c_section = 0, c_sectionSize = sectionSize, c_lastHash = 0,
                     c_trie = None\<rparr>
      in \<lparr>backend = backend, indexerSectionSize = sectionSize, confirmsReq = confirmReq\<rparr>)"

definition ChtIndexerBackend_Reset ::
  "('t, 'tdb) Collaborators \<Rightarrow> ('t, 'tdb) ChtIndexerBackend \<Rightarrow> uint64 \<Rightarrow> Hash
     \<Rightarrow> ('t, 'tdb) ChtIndexerBackend \<times> error option"
where
  "ChtIndexerBackend_Reset ext c sect lastSectionHead =
     (let root = (if sect > 0 then GetChtRoot (c_diskdb c) (sect - 1) lastSectionHead else 0);
          (t, err) = trie_New ext root (c_triedb c)
      in (c\<lparr>c_trie := t, c_section := sect\<rparr>, err))"

text \<open>
  \<^verbatim>\<open>Process\<close> sets \<^verbatim>\<open>lastHash\<close>, then panics when the total difficulty is absent. The
  error of the encoder is dropped. \<^verbatim>\<open>Update\<close> on a \<^verbatim>\<open>nil\<close> trie is a nil dereference.
\<close>

definition ChtIndexerBackend_Process ::
  "('t, 'tdb) Collaborators \<Rightarrow> ('t, 'tdb) ChtIndexerBackend \<Rightarrow> Header
     \<Rightarrow> ('t, 'tdb) ChtIndexerBackend outcome"
where
  "ChtIndexerBackend_Process ext c header =
     (let hash = Header_Hash header; num = Uint64 (Number header);
          c1 = c\<lparr>c_lastHash := hash\<rparr>
      in case ReadTd ext (c_diskdb c1) hash num of
           None \<Rightarrow> Panics
         | Some td \<Rightarrow>
             (let (data, _) = rlp_EncodeToBytes ext hash td
              in case c_trie c1 of
                   None \<Rightarrow> Panics
                 | Some t \<Rightarrow> Returns (c1\<lparr>c_trie := Some (trie_Update ext t (PutUint64 num) data)\<rparr>)))"

text \<open>
  \<^verbatim>\<open>Commit\<close>. The log line, written when \<^verbatim>\<open>(section+1)*sectionSize\<close> is a multiple of
  \<^verbatim>\<open>CHTFrequencyClient\<close>, changes no state and is left out.
\<close>

definition ChtIndexerBackend_Commit ::
  "('t, 'tdb) Collaborators \<Rightarrow> ('t, 'tdb) ChtIndexerBackend
     \<Rightarrow> (('t, 'tdb) ChtIndexerBackend \<times> error option) outcome"
where
  "ChtIndexerBackend_Commit ext c =
     (case c_trie c of
        None \<Rightarrow> Panics
      | Some t \<Rightarrow>
          (let (t', tdb', root, err) = trie_Commit ext t (c_triedb c)
           in case err of
                Some e \<Rightarrow> Returns (c\<lparr>c_trie := Some t', c_triedb := tdb'\<rparr>, Some e)
              | None \<Rightarrow>
                  (let tdb'' = triedb_Commit ext tdb' root;
                       db' = StoreChtRoot (c_diskdb c) (c_section c) (c_lastHash c) root
                   in Returns (c\<lparr>c_trie := Some t', c_triedb := tdb'', c_diskdb := db'\<rparr>,
                        None))))"

section \<open>The bloom trie indexer backend\<close>

text \<open>The fields of the Go struct, named after the receiver \<^verbatim>\<open>b\<close>.\<close>

record ('t, 'tdb) BloomTrieIndexerBackend =
  b_diskdb :: Database
  b_triedb :: 'tdb
  b_section :: uint64
  b_parentSectionSize :: uint64
  b_bloomTrieRatio :: uint64
  b_trie :: "'t option"
  b_sectionHeads :: "Hash list"

definition NewBloomTrieIndexer ::
  "('t, 'tdb) Collaborators \<Rightarrow> Database \<Rightarrow> bool
     \<Rightarrow> ('t, 'tdb) BloomTrieIndexerBackend ChainIndexer"
where
  "NewBloomTrieIndexer ext db clientMode =
     (let (parentSectionSize, confirmReq) =
            (if clientMode then (of_nat BloomTrieFrequency, of_nat HelperTrieConfirmations)
             else (of_nat ethBloomBitsSection, of_nat HelperTrieProcessConfirmations));
          bloomTrieRatio = of_nat BloomTrieFrequency div parentSectionSize;
          backend = \<lparr>b_diskdb = db, b_triedb = trie_NewDatabase ext BloomTrieTablePrefix,
                     b_section = 0, b_parentSectionSize = parentSectionSize,
                     b_bloomTrieRatio = bloomTrieRatio, b_trie = None,
                     b_sectionHeads = replicate (unat bloomTrieRatio) 0\<rparr>
      in \<lparr>backend = backend, indexerSectionSize = of_nat BloomTrieFrequency,
          confirmsReq = confirmReq - of_nat ethBloomBitsConfirmations\<rparr>)"

definition BloomTrieIndexerBackend_Reset ::
  "('t, 'tdb) Collaborators \<Rightarrow> ('t, 'tdb) BloomTrieIndexerBackend \<Rightarrow> uint64 \<Rightarrow> Hash
     \<Rightarrow> ('t, 'tdb) BloomTrieIndexerBackend \<times> error option"
where
  "BloomTrieIndexerBackend_Reset ext b sect lastSectionHead =
     (let root = (if sect > 0 then GetBloomTrieRoot (b_diskdb b) (sect - 1) lastSectionHead
                  else 0);
          (t, err) = trie_New ext root (b_triedb b)
      in (b\<lparr>b_trie := t, b_section := sect\<rparr>, err))"

text \<open>
  \<^verbatim>\<open>Process\<close>. The arithmetic is that of \<^verbatim>\<open>uint64\<close>; a zero divisor and an index outside
  the slice are run-time panics.
\<close>

definition BloomTrieIndexerBackend_Process ::
  "('t, 'tdb) BloomTrieIndexerBackend \<Rightarrow> Header \<Rightarrow> ('t, 'tdb) BloomTrieIndexerBackend outcome"
where
  "BloomTrieIndexerBackend_Process b header =
     (let num = Uint64 (Number header) - b_section b * of_nat BloomTrieFrequency
      in if b_parentSectionSize b = 0 then Panics
         else if (num + 1) mod b_parentSectionSize b = 0 then
           (let idx = unat (num div b_parentSectionSize b)
            in if idx < length (b_sectionHeads b)
               then Returns (b\<lparr>b_sectionHeads := (b_sectionHeads b)[idx := Header_Hash header]\<rparr>)
               else Panics)
         else Returns b)"

text \<open>
  The inner loop of \<^verbatim>\<open>Commit\<close>, over the sub-sections \<open>j\<close> still to read for bit \<open>i\<close>:
  the result is the vector read so far with the first error, if any.
\<close>

fun readSubSections ::
  "('t, 'tdb) Collaborators \<Rightarrow> ('t, 'tdb) BloomTrieIndexerBackend \<Rightarrow> nat \<Rightarrow> nat list \<Rightarrow> bytes
     \<Rightarrow> (bytes \<times> error option) outcome"
where
  "readSubSections ext b i [] decomp = Returns (decomp, None)"
| "readSubSections ext b i (j # js) decomp =
     (if j < length (b_sectionHeads b) then
        (let (data, err) =
               ReadBloomBits ext (b_diskdb b) i (b_section b * b_bloomTrieRatio b + of_nat j)
                 (b_sectionHeads b ! j)
         in case err of
              Some e \<Rightarrow> Returns (decomp, Some e)
            | None \<Rightarrow>
                (let (decompData, err2) =
                       DecompressBytes ext data (sint (b_parentSectionSize b div 8))
                 in case err2 of
                      Some e2 \<Rightarrow> Returns (decomp, Some e2)
                    | None \<Rightarrow> readSubSections ext b i js (decomp @ decompData)))
      else Panics)"

text \<open>
  The outer loop of \<^verbatim>\<open>Commit\<close>, over the bit positions \<open>i\<close> still to do: the result is
  the trie with the first error, if any. The byte counters of the source feed the log
  line only and are left out.
\<close>

fun commitColumns ::
  "('t, 'tdb) Collaborators \<Rightarrow> ('t, 'tdb) BloomTrieIndexerBackend \<Rightarrow> nat list \<Rightarrow> 't option
     \<Rightarrow> ('t option \<times> error option) outcome"
where
  "commitColumns ext b [] t = Returns (t, None)"
| "commitColumns ext b (i # is) t =
     (let encKey = PutUint16 (of_nat i) @ PutUint64 (b_section b)
      in case readSubSections ext b i [0..<unat (b_bloomTrieRatio b)] [] of
           Panics \<Rightarrow> Panics
         | Returns (decomp, Some e) \<Rightarrow> Returns (t, Some e)
         | Returns (decomp, None) \<Rightarrow>
             (let comp = CompressBytes ext decomp
              in case t of
                   None \<Rightarrow> Panics
                 | Some tr \<Rightarrow>
                     commitColumns ext b is
                       (Some (if length comp > 0 then trie_Update ext tr encKey comp
                              else trie_Delete ext tr encKey))))"

text \<open>
  The rest of \<^verbatim>\<open>Commit\<close>, after the loops, on the trie \<open>tr\<close> they have built. The log line
  changes no state and is left out.
\<close>

definition commitSectionRoot ::
  "('t, 'tdb) Collaborators \<Rightarrow> ('t, 'tdb) BloomTrieIndexerBackend \<Rightarrow> 't
     \<Rightarrow> (('t, 'tdb) BloomTrieIndexerBackend \<times> error option) outcome"
where
  "commitSectionRoot ext b tr =
     (let (t', tdb', root, err) = trie_Commit ext tr (b_triedb b)
      in case err of
           Some e \<Rightarrow> Returns (b\<lparr>b_trie := Some t', b_triedb := tdb'\<rparr>, Some e)
         | None \<Rightarrow>
             (let tdb'' = triedb_Commit ext tdb' root;
                  idx = unat (b_bloomTrieRatio b - 1)
              in if idx < length (b_sectionHeads b) then
                   (let sectionHead = b_sectionHeads b ! idx;
                        db' = StoreBloomTrieRoot (b_diskdb b) (b_section b) sectionHead root
                    in Returns (b\<lparr>b_trie := Some t', b_triedb := tdb'', b_diskdb := db'\<rparr>,
                         None))
                 else Panics))"

definition BloomTrieIndexerBackend_Commit ::
  "('t, 'tdb) Collaborators \<Rightarrow> ('t, 'tdb) BloomTrieIndexerBackend
     \<Rightarrow> (('t, 'tdb) BloomTrieIndexerBackend \<times> error option) outcome"
where
  "BloomTrieIndexerBackend_Commit ext b =
     (case commitColumns ext b [0..<BloomBitLength] (b_trie b) of
        Panics \<Rightarrow> Panics
      | Returns (t, Some e) \<Rightarrow> Returns (b\<lparr>b_trie := t\<rparr>, Some e)
      | Returns (None, None) \<Rightarrow> Panics
      | Returns (Some tr, None) \<Rightarrow> commitSectionRoot ext b tr)"

section \<open>The trusted checkpoints\<close>

record trustedCheckpoint =
  name :: string
  sectionIdx :: uint64
  sectionHead :: Hash
  chtRoot :: Hash
  bloomTrieRoot :: Hash

definition mainnetCheckpoint :: trustedCheckpoint where
  "mainnetCheckpoint =
     \<lparr>name = ''mainnet'',
      sectionIdx = 174,
      sectionHead = 0xa3ef48cd8f1c3a08419f0237fc7763491fe89497b3144b17adf87c1c43664613,
      chtRoot = 0xdcbeed9f4dea1b3cb75601bb27c51b9960c28e5850275402ac49a150a667296e,
      bloomTrieRoot = 0x6b7497a4a03e33870a2383cb6f5e70570f12b1bf5699063baf8c71d02ca90b02\<rparr>"

definition ropstenCheckpoint :: trustedCheckpoint where
  "ropstenCheckpoint =
     \<lparr>name = ''ropsten'',
      sectionIdx = 102,
      sectionHead = 0x9017ab08465cb2b2dee035ee5b817bbd7fa28e2c8d2cd903e0aed1cccb249e89,
      chtRoot = 0xf61c10a7a787a5ef15f0ae1ae6c13c64331e57e79d0466d2bd9b0c06833fe956,
      bloomTrieRoot = 0x69f2ad19aa46d5213a90137b3d2c9bff8a7c9483f7170f0125096ff450c9a873\<rparr>"

text \<open>
  The map literal \<^verbatim>\<open>trustedCheckpoints\<close>. Its keys \<^verbatim>\<open>params.MainnetGenesisHash\<close> and
  \<^verbatim>\<open>params.TestnetGenesisHash\<close> are variables of another package, and are parameters
  here. The entries of a Go map literal are stored in order.
\<close>

definition trustedCheckpoints :: "Hash \<Rightarrow> Hash \<Rightarrow> (Hash \<rightharpoonup> trustedCheckpoint)" where
  "trustedCheckpoints MainnetGenesisHash TestnetGenesisHash =
     [MainnetGenesisHash \<mapsto> mainnetCheckpoint, TestnetGenesisHash \<mapsto> ropstenCheckpoint]"

section \<open>The bloom columns in the words of the specification\<close>

text \<open>
  What reading sub-section \<open>j\<close> of bit \<open>i\<close> yields: the error of the raw read or else
  of the decompression, if any, and the decompressed vector.
\<close>

definition subSectionError ::
  "('t, 'tdb) Collaborators \<Rightarrow> ('t, 'tdb) BloomTrieIndexerBackend \<Rightarrow> nat \<Rightarrow> nat \<Rightarrow> error option"
where
  "subSectionError ext b i j =
     (let (data, err) =
            ReadBloomBits ext (b_diskdb b) i (b_section b * b_bloomTrieRatio b + of_nat j)
              (b_sectionHeads b ! j)
      in case err of
           Some e \<Rightarrow> Some e
         | None \<Rightarrow> snd (DecompressBytes ext data (sint (b_parentSectionSize b div 8))))"

definition subSectionVector ::
  "('t, 'tdb) Collaborators \<Rightarrow> ('t, 'tdb) BloomTrieIndexerBackend \<Rightarrow> nat \<Rightarrow> nat \<Rightarrow> bytes"
where
  "subSectionVector ext b i j =
     fst (DecompressBytes ext
       (fst (ReadBloomBits ext (b_diskdb b) i (b_section b * b_bloomTrieRatio b + of_nat j)
          (b_sectionHeads b ! j)))
       (sint (b_parentSectionSize b div 8)))"

text \<open>
  The column of bit \<open>i\<close>: the vectors of the sub-sections, concatenated in increasing
  order and compressed; its key; and what is done with it: a non-empty column is inserted
  under its key, for an empty one the leaf of the key is deleted.
\<close>

definition bloomColumn ::
  "('t, 'tdb) Collaborators \<Rightarrow> ('t, 'tdb) BloomTrieIndexerBackend \<Rightarrow> nat \<Rightarrow> bytes"
where
  "bloomColumn ext b i =
     CompressBytes ext (concat (map (subSectionVector ext b i) [0..<unat (b_bloomTrieRatio b)]))"

definition bloomColumnKey :: "('t, 'tdb) BloomTrieIndexerBackend \<Rightarrow> nat \<Rightarrow> bytes" where
  "bloomColumnKey b i = be_bytes 2 (of_nat i :: uint16) @ be_bytes 8 (b_section b)"

definition putColumn ::
  "('t, 'tdb) Collaborators \<Rightarrow> ('t, 'tdb) BloomTrieIndexerBackend \<Rightarrow> 't \<Rightarrow> nat \<Rightarrow> 't"
where
  "putColumn ext b tr i =
     (if bloomColumn ext b i \<noteq> [] then trie_Update ext tr (bloomColumnKey b i) (bloomColumn ext b i)
      else trie_Delete ext tr (bloomColumnKey b i))"

section \<open>An instance of the collaborators\<close>

text \<open>
  A small executable instance, to run the backends on concrete inputs: a trie is an
  association list and its root the number of its leaves plus one, the node database
  lists the committed tries by root, the total difficulty of block \<open>n\<close> is \<open>n + 1\<close>, the
  bloom bits of a sub-section are one byte for bit 0 and empty for every other bit, the
  codecs copy their input, and every read of a failing store fails.
\<close>

type_synonym simpleTrie = "(bytes \<times> bytes) list"
type_synonym simpleTrieDB = "(Hash \<times> simpleTrie) list"

definition simpleRoot :: "simpleTrie \<Rightarrow> Hash" where
  "simpleRoot t = of_nat (length t) + 1"

definition simpleCollaborators :: "(simpleTrie, simpleTrieDB) Collaborators" where
  "simpleCollaborators =
     \<lparr>trie_NewDatabase = (\<lambda>prefix. []),
      trie_New = (\<lambda>root tdb.
         if root = 0 then (Some [], None)
         else case map_of tdb root of
                None \<Rightarrow> (None, Some ErrMissingNode)
              | Some t \<Rightarrow> (Some t, None)),
      trie_Update = (\<lambda>t key val. (key, val) # filter (\<lambda>kv. fst kv \<noteq> key) t),
      trie_Delete = (\<lambda>t key. filter (\<lambda>kv. fst kv \<noteq> key) t),
      trie_Commit = (\<lambda>t tdb. (t, (simpleRoot t, t) # tdb, simpleRoot t, None)),
      triedb_Commit = (\<lambda>tdb root. tdb),
      ReadTd = (\<lambda>db hash num. if failing db then None else Some (unat num + 1)),
      ReadBloomBits = (\<lambda>db bit sect head.
         if failing db then ([], Some ErrStorage)
         else if bit = 0 then ([255], None)
         else ([], None)),
      rlp_EncodeToBytes = (\<lambda>hash td. (Hash_Bytes hash @ PutUint64 (of_nat td), None)),
      DecompressBytes = (\<lambda>data target. (data, None)),
      CompressBytes = (\<lambda>data. data)\<rparr>"

section \<open>The sizes of a bloom trie backend\<close>

text \<open>
  The sizes \<^verbatim>\<open>NewBloomTrieIndexer\<close> gives a backend in client or in server mode: the
  size of a parent section, the ratio, and as many slots for section heads as the ratio.
\<close>

definition sizesOfMode :: "bool \<Rightarrow> ('t, 'tdb) BloomTrieIndexerBackend \<Rightarrow> bool" where
  "sizesOfMode clientMode b \<longleftrightarrow>
     b_parentSectionSize b =
       (if clientMode then of_nat BloomTrieFrequency else of_nat ethBloomBitsSection)
     \<and> b_bloomTrieRatio b = of_nat BloomTrieFrequency div b_parentSectionSize b
     \<and> length (b_sectionHeads b) = unat (b_bloomTrieRatio b)"

section \<open>Concrete inputs\<close>

text \<open>An empty store, and a store whose engine is failing although it holds a CHT root.\<close>

definition emptyDatabase :: Database where
  "emptyDatabase = \<lparr>entries = Map.empty, failing = False\<rparr>"

definition failingDatabase :: Database where
  "failingDatabase = \<lparr>entries = [rootKey CHT 5 7 \<mapsto> Hash_Bytes 9], failing = True\<rparr>"

text \<open>Two headers with hash 7: block 0, and block 4095, the last of a 4096-block section.\<close>

definition header0 :: Header where
  "header0 = \<lparr>Number = 0, HeaderHash = 7\<rparr>"

definition header4095 :: Header where
  "header4095 = \<lparr>Number = 4095, HeaderHash = 7\<rparr>"

text \<open>
  A CHT backend in server mode through two sections: constructed, reset for section 0,
  after block 0, committed, reset for section 1 and committed again with no header in
  between; and the backend reset for section 0 on the failing store.
\<close>

definition freshChtBackend :: "(simpleTrie, simpleTrieDB) ChtIndexerBackend" where
  "freshChtBackend = backend (NewChtIndexer simpleCollaborators emptyDatabase False)"

definition openedChtBackend :: "(simpleTrie, simpleTrieDB) ChtIndexerBackend" where
  "openedChtBackend = fst (ChtIndexerBackend_Reset simpleCollaborators freshChtBackend 0 0)"

definition processedChtBackend :: "(simpleTrie, simpleTrieDB) ChtIndexerBackend" where
  "processedChtBackend =
     returned (ChtIndexerBackend_Process simpleCollaborators openedChtBackend header0)"

definition committedChtBackend :: "(simpleTrie, simpleTrieDB) ChtIndexerBackend" where
  "committedChtBackend =
     fst (returned (ChtIndexerBackend_Commit simpleCollaborators processedChtBackend))"

definition reopenedChtBackend :: "(simpleTrie, simpleTrieDB) ChtIndexerBackend" where
  "reopenedChtBackend =
     fst (ChtIndexerBackend_Reset simpleCollaborators committedChtBackend 1 7)"

definition recommittedChtBackend :: "(simpleTrie, simpleTrieDB) ChtIndexerBackend" where
  "recommittedChtBackend =
     fst (returned (ChtIndexerBackend_Commit simpleCollaborators reopenedChtBackend))"

definition brokenChtBackend :: "(simpleTrie, simpleTrieDB) ChtIndexerBackend" where
  "brokenChtBackend =
     fst (ChtIndexerBackend_Reset simpleCollaborators
       (backend (NewChtIndexer simpleCollaborators failingDatabase False)) 0 0)"

text \<open>
  Bloom trie backends: constructed in client and in server mode, the server one with the
  hash 7 in its first slot, the client one reset for section 0, on the empty and on the
  failing store.
\<close>

definition clientBloomBackend :: "(simpleTrie, simpleTrieDB) BloomTrieIndexerBackend" where
  "clientBloomBackend = backend (NewBloomTrieIndexer simpleCollaborators emptyDatabase True)"

definition serverBloomBackend :: "(simpleTrie, simpleTrieDB) BloomTrieIndexerBackend" where
  "serverBloomBackend = backend (NewBloomTrieIndexer simpleCollaborators emptyDatabase False)"

definition usedBloomBackend :: "(simpleTrie, simpleTrieDB) BloomTrieIndexerBackend" where
  "usedBloomBackend = serverBloomBackend\<lparr>b_sectionHeads := [7, 0, 0, 0, 0, 0, 0, 0]\<rparr>"

definition openedBloomBackend :: "(simpleTrie, simpleTrieDB) BloomTrieIndexerBackend" where
  "openedBloomBackend =
     fst (BloomTrieIndexerBackend_Reset simpleCollaborators clientBloomBackend 0 0)"

definition brokenBloomBackend :: "(simpleTrie, simpleTrieDB) BloomTrieIndexerBackend" where
  "brokenBloomBackend =
     fst (BloomTrieIndexerBackend_Reset simpleCollaborators
       (backend (NewBloomTrieIndexer simpleCollaborators failingDatabase True)) 0 0)"

section \<open>Encodings are injective\<close>

lemma foldl_be_bytes:
  "foldl (\<lambda>acc b. push_bit 8 acc OR ucast b) (acc :: 'a::len word) (be_bytes n (v :: 'a word))
     = push_bit (8 * n) acc OR take_bit (8 * n) v"
proof (induction n arbitrary: acc)
  case 0
  then show ?case by simp
next
  case (Suc n)
  have "push_bit (8 * n) (push_bit 8 acc OR ucast (ucast (drop_bit (8 * n) v) :: byte))
          OR take_bit (8 * n) v
        = push_bit (8 * Suc n) acc OR take_bit (8 * Suc n) v"
  proof (rule bit_word_eqI)
    fix k
    assume "k < LENGTH('a)"
    then show "bit (push_bit (8 * n) (push_bit 8 acc OR ucast (ucast (drop_bit (8 * n) v) :: byte))
            OR take_bit (8 * n) v) k
          = bit (push_bit (8 * Suc n) acc OR take_bit (8 * Suc n) v) k"
      by (cases "k < 8 * n") (auto simp: bit_simps ac_simps)
  qed
  then show ?case by (simp add: Suc)
qed

lemma be_word_be_bytes: "be_word (be_bytes n v) = take_bit (8 * n) v"
  by (simp add: be_word_def foldl_be_bytes)

lemma length_be_bytes: "length (be_bytes n v) = n"
  by (induction n) simp_all

lemma PutUint64_be_bytes: "PutUint64 v = be_bytes 8 v"
  by (simp add: PutUint64_def eval_nat_numeral)

lemma length_PutUint64: "length (PutUint64 v) = 8"
  by (simp add: PutUint64_def)

lemma PutUint64_inject: "PutUint64 v = PutUint64 w \<longleftrightarrow> v = w"
proof
  assume "PutUint64 v = PutUint64 w"
  then have "(be_word (be_bytes 8 v) :: uint64) = be_word (be_bytes 8 w)"
    by (simp add: PutUint64_be_bytes)
  then show "v = w"
    by (simp add: be_word_be_bytes take_bit_word_eq_self)
qed simp

lemma length_Hash_Bytes: "length (Hash_Bytes h) = 32"
  by (simp add: Hash_Bytes_def length_be_bytes)

lemma BytesToHash_Bytes: "BytesToHash (Hash_Bytes h) = h"
  by (simp add: BytesToHash_def length_Hash_Bytes)
     (simp add: Hash_Bytes_def be_word_be_bytes take_bit_word_eq_self)

lemma BytesToHash_Nil: "BytesToHash [] = 0"
proof -
  have "foldl (\<lambda>acc b. push_bit 8 acc OR ucast b) (0 :: Hash) (replicate n (0 :: byte)) = 0" for n
    by (induction n) simp_all
  then show ?thesis
    by (simp add: BytesToHash_def be_word_def)
qed

lemma Hash_Bytes_inject: "Hash_Bytes g = Hash_Bytes h \<longleftrightarrow> g = h"
  using BytesToHash_Bytes by metis

lemma chtPrefix_bytes: "chtPrefix = [0x63, 0x68, 0x74, 0x52, 0x6f, 0x6f, 0x74, 0x2d]"
  by (simp add: chtPrefix_def)

lemma bloomTriePrefix_bytes: "bloomTriePrefix = [0x62, 0x6c, 0x74, 0x52, 0x6f, 0x6f, 0x74, 0x2d]"
  by (simp add: bloomTriePrefix_def)

lemma rootKey_inject:
  "rootKey k s h = rootKey k' s' h' \<longleftrightarrow> k = k' \<and> s = s' \<and> h = h'"
  by (cases k; cases k')
     (simp_all add: chtPrefix_bytes bloomTriePrefix_bytes length_PutUint64 PutUint64_inject
        Hash_Bytes_inject)

section \<open>Properties of the root store\<close>

lemma Database_Get_Put_same:
  "\<not> failing db \<Longrightarrow> Database_Get (fst (Database_Put db key val)) key = (val, None)"
  by (simp add: Database_Get_def Database_Put_def)

lemma GetRoot_eq:
  "GetRoot k db s h = BytesToHash (fst (Database_Get db (rootKey k s h)))"
  by (cases k) (simp_all add: GetChtRoot_def GetBloomTrieRoot_def split: prod.splits)

lemma StoreRoot_eq:
  "StoreRoot k db s h r = fst (Database_Put db (rootKey k s h) (Hash_Bytes r))"
  by (cases k) (simp_all add: StoreChtRoot_def StoreBloomTrieRoot_def split: prod.splits)

lemma failing_StoreRoot: "failing (StoreRoot k db s h r) = failing db"
  by (simp add: StoreRoot_eq Database_Put_def)

lemma entries_StoreRoot_other:
  "(k', s', h') \<noteq> (k, s, h) \<Longrightarrow>
     entries (StoreRoot k' db s' h' r') (rootKey k s h) = entries db (rootKey k s h)"
  by (auto simp: StoreRoot_eq Database_Put_def rootKey_inject)

lemma entries_StoreRoots_other:
  "(k, s, h) \<notin> set (map (\<lambda>(k', s', h', r'). (k', s', h')) ws) \<Longrightarrow>
     entries (StoreRoots db ws) (rootKey k s h) = entries db (rootKey k s h)"
proof (induction ws arbitrary: db)
  case Nil
  then show ?case by simp
next
  case (Cons w ws)
  obtain k' s' h' r' where w: "w = (k', s', h', r')"
    by (cases w) auto
  from Cons.prems w have ne: "(k', s', h') \<noteq> (k, s, h)"
    and rest: "(k, s, h) \<notin> set (map (\<lambda>(k', s', h', r'). (k', s', h')) ws)"
    by auto
  show ?case
    using Cons.IH [OF rest] entries_StoreRoot_other [OF ne] by (simp add: w)
qed

lemma GetRoot_StoreRoot_same:
  "\<not> failing db \<Longrightarrow> GetRoot k (StoreRoot k db s h r) s h = r"
  by (simp add: GetRoot_eq StoreRoot_eq Database_Get_Put_same BytesToHash_Bytes)

lemma GetRoot_absent:
  "entries db (rootKey k s h) = None \<Longrightarrow> GetRoot k db s h = 0"
  by (simp add: GetRoot_eq Database_Get_def BytesToHash_Nil)

text \<open>
  C4: the client-frequency CHT root of section \<open>i\<close> is the server-frequency root of
  section \<open>(i+1)*8 - 1\<close> (in \<^verbatim>\<open>uint64\<close> arithmetic), for every database, section and head,
  where 8 is \<open>CHTFrequencyClient / CHTFrequencyServer = 32768 / 4096\<close>.
\<close>

theorem GetChtV2Root_frequency_conversion:
  "GetChtV2Root db i head = GetChtRoot db ((i + 1) * 8 - 1) head
   \<and> CHTFrequencyClient div CHTFrequencyServer = 8
   \<and> CHTFrequencyClient = 32768 \<and> CHTFrequencyServer = 4096"
  by (simp add: GetChtV2Root_def CHTFrequencyClient_def CHTFrequencyServer_def)

text \<open>
  C3: for both kinds of root, on a store that is not failing, reading a key just
  written returns the root that was written; and a key that is absent at the start and is
  not among the keys written since reads as the zero hash (the accessors have no error
  result).
\<close>

theorem root_store_round_trip:
  "(\<not> failing db \<longrightarrow> GetRoot k (StoreRoot k db s h r) s h = r)
   \<and> (entries db (rootKey k s h) = None
        \<and> (k, s, h) \<notin> set (map (\<lambda>(k', s', h', r'). (k', s', h')) ws)
      \<longrightarrow> GetRoot k (StoreRoots db ws) s h = 0)"
proof (intro conjI impI)
  assume "\<not> failing db"
  then show "GetRoot k (StoreRoot k db s h r) s h = r"
    by (rule GetRoot_StoreRoot_same)
next
  assume a: "entries db (rootKey k s h) = None
    \<and> (k, s, h) \<notin> set (map (\<lambda>(k', s', h', r'). (k', s', h')) ws)"
  then have "entries (StoreRoots db ws) (rootKey k s h) = None"
    by (simp add: entries_StoreRoots_other)
  then show "GetRoot k (StoreRoots db ws) s h = 0"
    by (rule GetRoot_absent)
qed

theorem root_store_round_trip_witness:
  "GetRoot CHT (StoreRoot CHT emptyDatabase 3 4 5) 3 4 = 5
   \<and> GetRoot BloomTrie (StoreRoots emptyDatabase [(CHT, 3, 4, 5), (BloomTrie, 3, 6, 5)]) 3 4 = 0"
proof -
  have "\<not> failing emptyDatabase"
    by (simp add: emptyDatabase_def)
  moreover have "entries emptyDatabase (rootKey BloomTrie 3 4) = None
    \<and> (BloomTrie, 3 :: uint64, 4 :: Hash) \<notin>
        set (map (\<lambda>(k', s', h', r'). (k', s', h'))
          [(CHT, 3, 4, 5 :: Hash), (BloomTrie, 3, 6, 5)])"
    by (simp add: emptyDatabase_def)
  ultimately show ?thesis
    using root_store_round_trip [of emptyDatabase CHT 3 4 5 "[]"]
      root_store_round_trip [of emptyDatabase BloomTrie 3 4 5
        "[(CHT, 3, 4, 5), (BloomTrie, 3, 6, 5)]"]
    by blast
qed

text \<open>
  C1, as stated, fails: a miss on the empty store and a read of a failing store report
  different errors to \<^verbatim>\<open>GetChtRoot\<close> and \<^verbatim>\<open>GetBloomTrieRoot\<close>, which return the same zero
  hash for both; and a write to the failing store reports an error to \<^verbatim>\<open>StoreChtRoot\<close>,
  which returns nothing and leaves the store as it was.
\<close>

theorem root_store_errors_counterexample:
  "snd (Database_Get emptyDatabase (rootKey CHT 5 7)) = Some ErrNotFound
   \<and> snd (Database_Get failingDatabase (rootKey CHT 5 7)) = Some ErrStorage
   \<and> GetChtRoot emptyDatabase 5 7 = GetChtRoot failingDatabase 5 7
   \<and> snd (Database_Get emptyDatabase (rootKey BloomTrie 5 7)) = Some ErrNotFound
   \<and> snd (Database_Get failingDatabase (rootKey BloomTrie 5 7)) = Some ErrStorage
   \<and> GetBloomTrieRoot emptyDatabase 5 7 = GetBloomTrieRoot failingDatabase 5 7
   \<and> snd (Database_Put failingDatabase (rootKey CHT 5 7) (Hash_Bytes 9)) = Some ErrStorage
   \<and> StoreChtRoot failingDatabase 5 7 9 = failingDatabase"
  by (simp add: Database_Get_def Database_Put_def emptyDatabase_def failingDatabase_def
      GetChtRoot_def GetBloomTrieRoot_def StoreChtRoot_def)

text \<open>
  C1, amended: whenever \<^verbatim>\<open>db.Get\<close> reports an error, a miss or a storage failure alike,
  the read accessor of either kind returns the zero hash; and the write accessor of
  either kind leaves the store in the state \<^verbatim>\<open>db.Put\<close> left it in, whether \<^verbatim>\<open>db.Put\<close>
  reported an error or not.
\<close>

theorem root_store_drops_errors:
  "(snd (Database_Get db (rootKey k s h)) \<noteq> None \<longrightarrow> GetRoot k db s h = 0)
   \<and> StoreRoot k db s h r = fst (Database_Put db (rootKey k s h) (Hash_Bytes r))"
  by (auto simp: GetRoot_eq StoreRoot_eq Database_Get_def BytesToHash_Nil split: option.splits)

theorem root_store_drops_errors_witness:
  "snd (Database_Get failingDatabase (rootKey CHT 5 7)) \<noteq> None
   \<and> GetRoot CHT failingDatabase 5 7 = 0
   \<and> StoreRoot CHT failingDatabase 5 7 9 = failingDatabase"
proof -
  have g: "snd (Database_Get failingDatabase (rootKey CHT 5 7)) \<noteq> None"
    by (simp add: Database_Get_def failingDatabase_def)
  have p: "fst (Database_Put failingDatabase (rootKey CHT 5 7) (Hash_Bytes 9)) = failingDatabase"
    by (simp add: Database_Put_def failingDatabase_def)
  show ?thesis
    using g p root_store_drops_errors [of failingDatabase CHT 5 7 9] by simp
qed

section \<open>Properties of the trusted checkpoints\<close>

text \<open>
  C9: a lookup in the checkpoint table returns the hardcoded record of the main network
  for its genesis hash and that of the test network for its genesis hash, the two hashes
  being distinct, and finds nothing for any other hash.
\<close>

theorem trustedCheckpoints_lookup:
  "(MainnetGenesisHash \<noteq> TestnetGenesisHash \<longrightarrow>
      trustedCheckpoints MainnetGenesisHash TestnetGenesisHash MainnetGenesisHash =
        Some \<lparr>name = ''mainnet'', sectionIdx = 174,
          sectionHead = 0xa3ef48cd8f1c3a08419f0237fc7763491fe89497b3144b17adf87c1c43664613,
          chtRoot = 0xdcbeed9f4dea1b3cb75601bb27c51b9960c28e5850275402ac49a150a667296e,
          bloomTrieRoot = 0x6b7497a4a03e33870a2383cb6f5e70570f12b1bf5699063baf8c71d02ca90b02\<rparr>)
   \<and> trustedCheckpoints MainnetGenesisHash TestnetGenesisHash TestnetGenesisHash =
        Some \<lparr>name = ''ropsten'', sectionIdx = 102,
          sectionHead = 0x9017ab08465cb2b2dee035ee5b817bbd7fa28e2c8d2cd903e0aed1cccb249e89,
          chtRoot = 0xf61c10a7a787a5ef15f0ae1ae6c13c64331e57e79d0466d2bd9b0c06833fe956,
          bloomTrieRoot = 0x69f2ad19aa46d5213a90137b3d2c9bff8a7c9483f7170f0125096ff450c9a873\<rparr>
   \<and> (g \<noteq> MainnetGenesisHash \<and> g \<noteq> TestnetGenesisHash \<longrightarrow>
        trustedCheckpoints MainnetGenesisHash TestnetGenesisHash g = None)"
  by (simp add: trustedCheckpoints_def mainnetCheckpoint_def ropstenCheckpoint_def)

theorem trustedCheckpoints_lookup_witness:
  "trustedCheckpoints 1 2 1 = Some mainnetCheckpoint
   \<and> trustedCheckpoints 1 2 2 = Some ropstenCheckpoint
   \<and> trustedCheckpoints 1 2 3 = None"
  using trustedCheckpoints_lookup [of 1 2 3]
  by (simp add: mainnetCheckpoint_def ropstenCheckpoint_def)

section \<open>Properties of the CHT indexer backend\<close>

text \<open>
  C5: on a backend whose trie is open, \<^verbatim>\<open>Process\<close> panics exactly when the total
  difficulty of the header is absent; when it is present, \<^verbatim>\<open>Process\<close> returns, having
  set \<^verbatim>\<open>lastHash\<close> to the header's hash and inserted, under the 8 big-endian bytes of the
  block number, the encoding of the hash and the total difficulty.
\<close>

theorem cht_Process_panics_iff_no_td:
  assumes "c_trie c = Some t"
  shows "(ChtIndexerBackend_Process ext c header = Panics \<longleftrightarrow>
            ReadTd ext (c_diskdb c) (Header_Hash header) (Uint64 (Number header)) = None)
   \<and> (ReadTd ext (c_diskdb c) (Header_Hash header) (Uint64 (Number header)) = Some td \<longrightarrow>
        ChtIndexerBackend_Process ext c header =
          Returns (c\<lparr>c_lastHash := Header_Hash header,
                     c_trie := Some (trie_Update ext t (be_bytes 8 (Uint64 (Number header)))
                       (fst (rlp_EncodeToBytes ext (Header_Hash header) td)))\<rparr>))"
  using assms
  by (auto simp: ChtIndexerBackend_Process_def Let_def PutUint64_be_bytes
      split: option.splits prod.splits)

lemma openedChtBackend_eq:
  "openedChtBackend =
     \<lparr>c_diskdb = emptyDatabase, c_triedb = [], c_section = 0, c_sectionSize = 4096,
      c_lastHash = 0, c_trie = Some []\<rparr>"
  by (simp add: openedChtBackend_def freshChtBackend_def ChtIndexerBackend_Reset_def
      NewChtIndexer_def simpleCollaborators_def CHTFrequencyServer_def)

lemma brokenChtBackend_eq:
  "brokenChtBackend =
     \<lparr>c_diskdb = failingDatabase, c_triedb = [], c_section = 0, c_sectionSize = 4096,
      c_lastHash = 0, c_trie = Some []\<rparr>"
  by (simp add: brokenChtBackend_def ChtIndexerBackend_Reset_def
      NewChtIndexer_def simpleCollaborators_def CHTFrequencyServer_def)

theorem cht_Process_panics_iff_no_td_witness:
  "ChtIndexerBackend_Process simpleCollaborators openedChtBackend header0 =
     Returns (openedChtBackend\<lparr>c_lastHash := 7,
       c_trie := Some [(be_bytes 8 (0 :: uint64), Hash_Bytes 7 @ PutUint64 1)]\<rparr>)
   \<and> ChtIndexerBackend_Process simpleCollaborators brokenChtBackend header0 = Panics"
proof -
  have t: "c_trie openedChtBackend = Some []" "c_trie brokenChtBackend = Some []"
    by (simp_all add: openedChtBackend_eq brokenChtBackend_eq)
  have td: "ReadTd simpleCollaborators (c_diskdb openedChtBackend) (Header_Hash header0)
      (Uint64 (Number header0)) = Some 1"
    by (simp add: openedChtBackend_eq simpleCollaborators_def emptyDatabase_def header0_def
        Uint64_def)
  have no_td: "ReadTd simpleCollaborators (c_diskdb brokenChtBackend) (Header_Hash header0)
      (Uint64 (Number header0)) = None"
    by (simp add: brokenChtBackend_eq simpleCollaborators_def failingDatabase_def)
  have upd: "trie_Update simpleCollaborators [] (be_bytes 8 (Uint64 (Number header0)))
         (fst (rlp_EncodeToBytes simpleCollaborators 7 1))
       = [(be_bytes 8 (0 :: uint64), Hash_Bytes 7 @ PutUint64 1)]"
    and hh: "Header_Hash header0 = 7"
    by (simp_all add: simpleCollaborators_def header0_def Header_Hash_def Uint64_def)
  have "ChtIndexerBackend_Process simpleCollaborators openedChtBackend header0 =
     Returns (openedChtBackend\<lparr>c_lastHash := Header_Hash header0,
       c_trie := Some (trie_Update simpleCollaborators [] (be_bytes 8 (Uint64 (Number header0)))
         (fst (rlp_EncodeToBytes simpleCollaborators (Header_Hash header0) 1)))\<rparr>)"
    using cht_Process_panics_iff_no_td [OF t(1), of simpleCollaborators header0 1] td by blast
  then have "ChtIndexerBackend_Process simpleCollaborators openedChtBackend header0 =
     Returns (openedChtBackend\<lparr>c_lastHash := 7,
       c_trie := Some [(be_bytes 8 (0 :: uint64), Hash_Bytes 7 @ PutUint64 1)]\<rparr>)"
    by (simp only: upd hh)
  moreover have "ChtIndexerBackend_Process simpleCollaborators brokenChtBackend header0 = Panics"
    using cht_Process_panics_iff_no_td [OF t(2), of simpleCollaborators header0 1] no_td by blast
  ultimately show ?thesis
    by (rule conjI)
qed

lemma processedChtBackend_eq:
  "ChtIndexerBackend_Process simpleCollaborators openedChtBackend header0 =
     Returns
       \<lparr>c_diskdb = emptyDatabase, c_triedb = [], c_section = 0, c_sectionSize = 4096,
        c_lastHash = 7, c_trie = Some [(PutUint64 0, Hash_Bytes 7 @ PutUint64 1)]\<rparr>"
  by (simp add: openedChtBackend_eq ChtIndexerBackend_Process_def simpleCollaborators_def
      header0_def Header_Hash_def Uint64_def emptyDatabase_def)

lemma processedChtBackend_val:
  "processedChtBackend =
     \<lparr>c_diskdb = emptyDatabase, c_triedb = [], c_section = 0, c_sectionSize = 4096,
      c_lastHash = 7, c_trie = Some [(PutUint64 0, Hash_Bytes 7 @ PutUint64 1)]\<rparr>"
  by (simp add: processedChtBackend_def processedChtBackend_eq)

lemma committedChtBackend_eq:
  "ChtIndexerBackend_Commit simpleCollaborators processedChtBackend =
     Returns
       (\<lparr>c_diskdb = StoreRoot CHT emptyDatabase 0 7 2,
         c_triedb = [(2, [(PutUint64 0, Hash_Bytes 7 @ PutUint64 1)])],
         c_section = 0, c_sectionSize = 4096,
         c_lastHash = 7, c_trie = Some [(PutUint64 0, Hash_Bytes 7 @ PutUint64 1)]\<rparr>, None)"
  by (simp add: processedChtBackend_val ChtIndexerBackend_Commit_def
      simpleCollaborators_def simpleRoot_def)

lemma committedChtBackend_val:
  "committedChtBackend =
     \<lparr>c_diskdb = StoreRoot CHT emptyDatabase 0 7 2,
      c_triedb = [(2, [(PutUint64 0, Hash_Bytes 7 @ PutUint64 1)])],
      c_section = 0, c_sectionSize = 4096,
      c_lastHash = 7, c_trie = Some [(PutUint64 0, Hash_Bytes 7 @ PutUint64 1)]\<rparr>"
  by (simp add: committedChtBackend_def committedChtBackend_eq)

lemma reopenedChtBackend_eq:
  "ChtIndexerBackend_Reset simpleCollaborators committedChtBackend 1 7 =
     (\<lparr>c_diskdb = StoreRoot CHT emptyDatabase 0 7 2,
       c_triedb = [(2, [(PutUint64 0, Hash_Bytes 7 @ PutUint64 1)])],
       c_section = 1, c_sectionSize = 4096,
       c_lastHash = 7, c_trie = Some [(PutUint64 0, Hash_Bytes 7 @ PutUint64 1)]\<rparr>, None)"
proof -
  have "GetRoot CHT (StoreRoot CHT emptyDatabase 0 7 2) 0 7 = 2"
    by (rule GetRoot_StoreRoot_same) (simp add: emptyDatabase_def)
  then show ?thesis
    by (simp add: committedChtBackend_val ChtIndexerBackend_Reset_def simpleCollaborators_def)
qed

lemma reopenedChtBackend_val:
  "reopenedChtBackend =
     \<lparr>c_diskdb = StoreRoot CHT emptyDatabase 0 7 2,
      c_triedb = [(2, [(PutUint64 0, Hash_Bytes 7 @ PutUint64 1)])],
      c_section = 1, c_sectionSize = 4096,
      c_lastHash = 7, c_trie = Some [(PutUint64 0, Hash_Bytes 7 @ PutUint64 1)]\<rparr>"
  by (simp add: reopenedChtBackend_def reopenedChtBackend_eq)

lemma recommittedChtBackend_eq:
  "ChtIndexerBackend_Commit simpleCollaborators reopenedChtBackend =
     Returns
       (\<lparr>c_diskdb = StoreRoots emptyDatabase [(CHT, 0, 7, 2), (CHT, 1, 7, 2)],
         c_triedb = [(2, [(PutUint64 0, Hash_Bytes 7 @ PutUint64 1)]),
                     (2, [(PutUint64 0, Hash_Bytes 7 @ PutUint64 1)])],
         c_section = 1, c_sectionSize = 4096,
         c_lastHash = 7, c_trie = Some [(PutUint64 0, Hash_Bytes 7 @ PutUint64 1)]\<rparr>, None)"
  by (simp add: reopenedChtBackend_val ChtIndexerBackend_Commit_def
      simpleCollaborators_def simpleRoot_def)

text \<open>
  C10, as stated, fails: a backend that has processed block 0, with hash 7, and committed
  section 0 is reset for section 1 and committed with no header in between. Both calls
  succeed, and the root of section 1 is stored under the head 7, the hash left in
  \<^verbatim>\<open>lastHash\<close>, while nothing is stored under the zero hash.
\<close>

theorem cht_Commit_after_Reset_counterexample:
  "\<not> panics (ChtIndexerBackend_Process simpleCollaborators openedChtBackend header0)
   \<and> c_lastHash processedChtBackend = 7
   \<and> \<not> panics (ChtIndexerBackend_Commit simpleCollaborators processedChtBackend)
   \<and> snd (ChtIndexerBackend_Reset simpleCollaborators committedChtBackend 1 7) = None
   \<and> \<not> panics (ChtIndexerBackend_Commit simpleCollaborators reopenedChtBackend)
   \<and> snd (returned (ChtIndexerBackend_Commit simpleCollaborators reopenedChtBackend)) = None
   \<and> GetChtRoot (c_diskdb recommittedChtBackend) 1 7 = 2
   \<and> GetChtRoot (c_diskdb recommittedChtBackend) 1 0 = 0"
proof -
  have db: "c_diskdb recommittedChtBackend =
      StoreRoots emptyDatabase [(CHT, 0, 7, 2), (CHT, 1, 7, 2)]"
    by (simp add: recommittedChtBackend_def recommittedChtBackend_eq)
  have "GetRoot CHT (StoreRoot CHT (StoreRoot CHT emptyDatabase 0 7 2) 1 7 2) 1 7 = 2"
    by (rule GetRoot_StoreRoot_same) (simp only: failing_StoreRoot, simp add: emptyDatabase_def)
  then have a: "GetChtRoot (c_diskdb recommittedChtBackend) 1 7 = 2"
    by (simp add: db)
  have "entries (StoreRoots emptyDatabase [(CHT, 0, 7, 2), (CHT, 1, 7, 2)]) (rootKey CHT 1 0)
      = entries emptyDatabase (rootKey CHT 1 0)"
    by (rule entries_StoreRoots_other) simp
  then have "entries (StoreRoots emptyDatabase [(CHT, 0, 7, 2), (CHT, 1, 7, 2)]) (rootKey CHT 1 0)
      = None"
    by (simp only: emptyDatabase_def Database.simps)
  then have "GetRoot CHT (StoreRoots emptyDatabase [(CHT, 0, 7, 2), (CHT, 1, 7, 2)]) 1 0 = 0"
    by (rule GetRoot_absent)
  then have b: "GetChtRoot (c_diskdb recommittedChtBackend) 1 0 = 0"
    by (simp only: db GetRoot.simps)
  have c: "c_lastHash processedChtBackend = 7"
    by (simp add: processedChtBackend_val)
  show ?thesis
    by (simp add: a b c processedChtBackend_eq committedChtBackend_eq
        reopenedChtBackend_eq recommittedChtBackend_eq)
qed

text \<open>
  C10, amended: when \<^verbatim>\<open>Commit\<close> is called right after a \<^verbatim>\<open>Reset\<close> that opened a trie, with
  no \<^verbatim>\<open>Process\<close> in between, and the commit of the trie reports no error, \<^verbatim>\<open>Commit\<close>
  returns no error and writes the root of the current section under the head that
  \<^verbatim>\<open>lastHash\<close> held before \<^verbatim>\<open>Reset\<close>, which \<^verbatim>\<open>Reset\<close> does not change: the zero hash for a
  newly constructed backend, else the hash of the last header processed before. Nothing
  checks that headers were processed. On a store that is not failing the entry reads
  back as the root.
\<close>

theorem cht_Commit_after_Reset:
  assumes "ChtIndexerBackend_Reset ext c sect lastSectionHead = (c1, err)"
    and "c_trie c1 = Some t"
    and "trie_Commit ext t (c_triedb c1) = (t', tdb', root, None)"
  shows "ChtIndexerBackend_Commit ext c1 =
           Returns (c1\<lparr>c_trie := Some t', c_triedb := triedb_Commit ext tdb' root,
                      c_diskdb := StoreChtRoot (c_diskdb c) sect (c_lastHash c) root\<rparr>, None)
   \<and> (\<not> failing (c_diskdb c) \<longrightarrow>
        GetChtRoot (StoreChtRoot (c_diskdb c) sect (c_lastHash c) root) sect (c_lastHash c) = root)
   \<and> c_lastHash (backend (NewChtIndexer ext db clientMode)) = 0"
proof -
  from assms(1) have c1: "c_diskdb c1 = c_diskdb c" "c_section c1 = sect"
    "c_lastHash c1 = c_lastHash c"
    by (auto simp: ChtIndexerBackend_Reset_def Let_def split: prod.splits)
  have "ChtIndexerBackend_Commit ext c1 =
           Returns (c1\<lparr>c_trie := Some t', c_triedb := triedb_Commit ext tdb' root,
                      c_diskdb := StoreChtRoot (c_diskdb c) sect (c_lastHash c) root\<rparr>, None)"
    using assms(2,3) by (simp add: ChtIndexerBackend_Commit_def c1)
  moreover have "\<not> failing (c_diskdb c) \<longrightarrow>
        GetChtRoot (StoreChtRoot (c_diskdb c) sect (c_lastHash c) root) sect (c_lastHash c) = root"
    using GetRoot_StoreRoot_same [of "c_diskdb c" CHT sect "c_lastHash c" root] by simp
  moreover have "c_lastHash (backend (NewChtIndexer ext db clientMode)) = 0"
    by (simp add: NewChtIndexer_def Let_def split: prod.splits)
  ultimately show ?thesis by blast
qed

theorem cht_Commit_after_Reset_witness:
  "ChtIndexerBackend_Commit simpleCollaborators openedChtBackend =
     Returns (openedChtBackend\<lparr>c_trie := Some [], c_triedb := [(1, [])],
       c_diskdb := StoreChtRoot emptyDatabase 0 0 1\<rparr>, None)
   \<and> GetChtRoot (StoreChtRoot emptyDatabase 0 0 1) 0 0 = 1
   \<and> c_lastHash freshChtBackend = 0"
proof -
  have r: "ChtIndexerBackend_Reset simpleCollaborators freshChtBackend 0 0 =
      (openedChtBackend, None)"
    by (simp add: openedChtBackend_def freshChtBackend_def ChtIndexerBackend_Reset_def
        simpleCollaborators_def)
  have t: "c_trie openedChtBackend = Some []"
    by (simp add: openedChtBackend_eq)
  have c: "trie_Commit simpleCollaborators [] (c_triedb openedChtBackend) =
      ([], [(1, [])], 1, None)"
    by (simp add: openedChtBackend_eq simpleCollaborators_def simpleRoot_def)
  have f: "c_diskdb freshChtBackend = emptyDatabase" "c_lastHash freshChtBackend = 0"
    "\<not> failing emptyDatabase"
    by (simp_all add: freshChtBackend_def NewChtIndexer_def emptyDatabase_def)
  show ?thesis
    using cht_Commit_after_Reset [OF r t c, of emptyDatabase False] f
    by (simp add: simpleCollaborators_def)
qed

section \<open>Properties of the bloom trie indexer backend: sizes, \<^verbatim>\<open>Reset\<close> and \<^verbatim>\<open>Process\<close>\<close>

lemma replicate_8: "replicate 8 x = [x, x, x, x, x, x, x, x]"
  by (simp add: eval_nat_numeral)

lemma sizesOfMode_New: "sizesOfMode clientMode (backend (NewBloomTrieIndexer ext db clientMode))"
  by (simp add: sizesOfMode_def NewBloomTrieIndexer_def Let_def)

lemma sizesOfMode_server:
  "sizesOfMode False b \<longleftrightarrow>
     b_parentSectionSize b = 4096 \<and> b_bloomTrieRatio b = 8 \<and> length (b_sectionHeads b) = 8"
  by (auto simp: sizesOfMode_def BloomTrieFrequency_def ethBloomBitsSection_def)

lemma sizesOfMode_client:
  "sizesOfMode True b \<longleftrightarrow>
     b_parentSectionSize b = 32768 \<and> b_bloomTrieRatio b = 1 \<and> length (b_sectionHeads b) = 1"
  by (auto simp: sizesOfMode_def BloomTrieFrequency_def ethBloomBitsSection_def)

lemma sizesOfMode_Reset:
  "sizesOfMode clientMode (fst (BloomTrieIndexerBackend_Reset ext b sect lastSectionHead))
     \<longleftrightarrow> sizesOfMode clientMode b"
  by (simp add: BloomTrieIndexerBackend_Reset_def sizesOfMode_def split: prod.splits)

lemma slot_in_range_server: "unat ((x :: uint64) div 4096) < 8 \<longleftrightarrow> x < 32768"
  by (simp add: unat_div word_less_nat_alt) arith

lemma slot_in_range_client: "unat ((x :: uint64) div 32768) = 0 \<longleftrightarrow> x < 32768"
  by (simp add: unat_div word_less_nat_alt) arith

lemma serverBloomBackend_eq:
  "serverBloomBackend =
     \<lparr>b_diskdb = emptyDatabase, b_triedb = [], b_section = 0, b_parentSectionSize = 4096,
      b_bloomTrieRatio = 8, b_trie = None, b_sectionHeads = [0, 0, 0, 0, 0, 0, 0, 0]\<rparr>"
  by (simp add: serverBloomBackend_def NewBloomTrieIndexer_def simpleCollaborators_def
      BloomTrieFrequency_def ethBloomBitsSection_def replicate_8)

lemma clientBloomBackend_eq:
  "clientBloomBackend =
     \<lparr>b_diskdb = emptyDatabase, b_triedb = [], b_section = 0, b_parentSectionSize = 32768,
      b_bloomTrieRatio = 1, b_trie = None, b_sectionHeads = [0]\<rparr>"
  by (simp add: clientBloomBackend_def NewBloomTrieIndexer_def simpleCollaborators_def
      BloomTrieFrequency_def)

text \<open>
  C2, as stated, fails: the backend in server mode records the hash 7 of block 4095 in
  its first slot, and after the \<^verbatim>\<open>Reset\<close> for section 1 the slot still holds 7: the slots
  are not cleared.
\<close>

theorem bloom_Reset_counterexample:
  "BloomTrieIndexerBackend_Process serverBloomBackend header4095 = Returns usedBloomBackend
   \<and> b_sectionHeads (fst (BloomTrieIndexerBackend_Reset simpleCollaborators usedBloomBackend 1 7))
       = [7, 0, 0, 0, 0, 0, 0, 0]
   \<and> b_sectionHeads (fst (BloomTrieIndexerBackend_Reset simpleCollaborators usedBloomBackend 1 7))
       \<noteq> replicate 8 0"
  by (simp add: BloomTrieIndexerBackend_Process_def serverBloomBackend_eq header4095_def
      usedBloomBackend_def BloomTrieIndexerBackend_Reset_def Header_Hash_def
      BloomTrieFrequency_def Uint64_def replicate_8 split: prod.splits)

text \<open>
  C2, amended: \<^verbatim>\<open>Reset\<close> leaves the slots of \<^verbatim>\<open>sectionHeads\<close> as they are. Their number is
  fixed by \<^verbatim>\<open>NewBloomTrieIndexer\<close> at \<open>bloomTrieRatio = 32768 / parentSectionSize\<close> and kept
  by \<^verbatim>\<open>Reset\<close>. \<^verbatim>\<open>Reset\<close> sets the section and opens the trie at the root stored for the
  section before and the given head, or at the zero root for section 0, and returns the
  error of opening it.
\<close>

theorem bloom_Reset_keeps_sectionHeads:
  "b_sectionHeads (fst (BloomTrieIndexerBackend_Reset ext b sect lastSectionHead)) = b_sectionHeads b
   \<and> (sizesOfMode clientMode b \<longrightarrow>
        sizesOfMode clientMode (fst (BloomTrieIndexerBackend_Reset ext b sect lastSectionHead)))
   \<and> sizesOfMode clientMode (backend (NewBloomTrieIndexer ext db clientMode))
   \<and> b_section (fst (BloomTrieIndexerBackend_Reset ext b sect lastSectionHead)) = sect
   \<and> (b_trie (fst (BloomTrieIndexerBackend_Reset ext b sect lastSectionHead)),
       snd (BloomTrieIndexerBackend_Reset ext b sect lastSectionHead))
      = trie_New ext
          (if sect = 0 then 0 else GetBloomTrieRoot (b_diskdb b) (sect - 1) lastSectionHead)
          (b_triedb b)"
proof (intro conjI)
  show "sizesOfMode clientMode b \<longrightarrow>
        sizesOfMode clientMode (fst (BloomTrieIndexerBackend_Reset ext b sect lastSectionHead))"
    by (simp add: sizesOfMode_Reset)
  show "sizesOfMode clientMode (backend (NewBloomTrieIndexer ext db clientMode))"
    by (rule sizesOfMode_New)
qed (simp_all add: BloomTrieIndexerBackend_Reset_def word_greater_zero_iff split: prod.splits)

theorem bloom_Reset_keeps_sectionHeads_witness:
  "sizesOfMode False usedBloomBackend
   \<and> sizesOfMode False
       (fst (BloomTrieIndexerBackend_Reset simpleCollaborators usedBloomBackend 1 7))
   \<and> b_sectionHeads (fst (BloomTrieIndexerBackend_Reset simpleCollaborators usedBloomBackend 1 7))
       = b_sectionHeads usedBloomBackend"
proof -
  have "sizesOfMode False usedBloomBackend"
    by (simp add: sizesOfMode_server usedBloomBackend_def serverBloomBackend_eq)
  then show ?thesis
    using bloom_Reset_keeps_sectionHeads
      [of simpleCollaborators usedBloomBackend 1 7 False emptyDatabase]
    by blast
qed

text \<open>
  C8, as stated, fails in client mode: for block 4095 of section 0 the offset plus one
  is a multiple of 4096, and \<^verbatim>\<open>Process\<close> records nothing.
\<close>

theorem bloom_Process_counterexample:
  "(Uint64 (Number header4095) - b_section clientBloomBackend * 32768 + 1) mod 4096 = 0
   \<and> BloomTrieIndexerBackend_Process clientBloomBackend header4095 = Returns clientBloomBackend"
  by (simp add: BloomTrieIndexerBackend_Process_def clientBloomBackend_eq header4095_def
      BloomTrieFrequency_def Uint64_def)

text \<open>
  C8, amended: let \<open>P\<close> be the size of a parent section, 4096 in server mode and 32768
  in client mode, and \<open>offset = blockNumber - section * 32768\<close> in \<^verbatim>\<open>uint64\<close> arithmetic.
  \<^verbatim>\<open>Process\<close> records the hash of the header in slot \<open>offset / P\<close> exactly when
  \<open>(offset + 1) mod P = 0\<close>, for a header of the section (\<open>offset < 32768\<close>); for a
  header beyond the section the slot does not exist and \<^verbatim>\<open>Process\<close> panics; in every
  other case \<^verbatim>\<open>Process\<close> changes nothing.
\<close>

theorem bloom_Process_records:
  assumes "sizesOfMode clientMode b"
    and "P = (if clientMode then 32768 else 4096)"
    and "offset = Uint64 (Number header) - b_section b * 32768"
  shows "BloomTrieIndexerBackend_Process b header =
     (if (offset + 1) mod P = 0 then
        (if offset < 32768
         then Returns (b\<lparr>b_sectionHeads :=
                (b_sectionHeads b)[unat (offset div P) := Header_Hash header]\<rparr>)
         else Panics)
      else Returns b)"
proof (cases clientMode)
  case True
  with assms show ?thesis
    by (simp add: sizesOfMode_client BloomTrieIndexerBackend_Process_def BloomTrieFrequency_def
        slot_in_range_client Let_def)
next
  case False
  with assms show ?thesis
    by (simp add: sizesOfMode_server BloomTrieIndexerBackend_Process_def BloomTrieFrequency_def
        slot_in_range_server Let_def)
qed

theorem bloom_Process_records_witness:
  "BloomTrieIndexerBackend_Process serverBloomBackend header4095 =
     Returns (serverBloomBackend\<lparr>b_sectionHeads := [7, 0, 0, 0, 0, 0, 0, 0]\<rparr>)
   \<and> BloomTrieIndexerBackend_Process serverBloomBackend header0 = Returns serverBloomBackend"
proof -
  have s: "sizesOfMode False serverBloomBackend"
    by (simp add: sizesOfMode_server serverBloomBackend_eq)
  have o1: "(4095 :: uint64) = Uint64 (Number header4095) - b_section serverBloomBackend * 32768"
    and o2: "(0 :: uint64) = Uint64 (Number header0) - b_section serverBloomBackend * 32768"
    by (simp_all add: header4095_def header0_def Uint64_def serverBloomBackend_eq)
  have p: "(4096 :: uint64) = (if False then 32768 else 4096)"
    by simp
  have h: "Header_Hash header4095 = 7"
    "(b_sectionHeads serverBloomBackend)[0 := 7] = [7, 0, 0, 0, 0, 0, 0, 0]"
    by (simp_all add: Header_Hash_def header4095_def serverBloomBackend_eq)
  show ?thesis
    using bloom_Process_records [OF s p o1] bloom_Process_records [OF s p o2] h
    by simp
qed

section \<open>Properties of the bloom trie indexer backend: \<^verbatim>\<open>Commit\<close>\<close>

lemma PutUint16_be_bytes: "PutUint16 v = be_bytes 2 v"
  by (simp add: PutUint16_def eval_nat_numeral)

lemma readSubSections_ok:
  assumes "\<forall>j \<in> set js. j < length (b_sectionHeads b) \<and> subSectionError ext b i j = None"
  shows "readSubSections ext b i js decomp =
           Returns (decomp @ concat (map (subSectionVector ext b i) js), None)"
  using assms
proof (induction js arbitrary: decomp)
  case Nil
  then show ?case by simp
next
  case (Cons j js)
  from Cons.prems have j: "j < length (b_sectionHeads b)" "subSectionError ext b i j = None"
    and rest: "\<forall>j \<in> set js. j < length (b_sectionHeads b) \<and> subSectionError ext b i j = None"
    by auto
  show ?case
    using j Cons.IH [OF rest]
    by (auto simp: subSectionError_def subSectionVector_def split: prod.splits option.splits)
qed

lemma readSubSections_error:
  assumes "\<forall>j \<in> set js. j < length (b_sectionHeads b) \<and> subSectionError ext b i j = None"
    and "j < length (b_sectionHeads b)" and "subSectionError ext b i j = Some e"
  shows "readSubSections ext b i (js @ j # js') decomp =
           Returns (decomp @ concat (map (subSectionVector ext b i) js), Some e)"
  using assms
proof (induction js arbitrary: decomp)
  case Nil
  then show ?case
    by (auto simp: subSectionError_def split: prod.splits option.splits)
next
  case (Cons j' js)
  from Cons.prems have j': "j' < length (b_sectionHeads b)" "subSectionError ext b i j' = None"
    and rest: "\<forall>j \<in> set js. j < length (b_sectionHeads b) \<and> subSectionError ext b i j = None"
    by auto
  show ?case
    using j' Cons.IH [OF rest Cons.prems(2,3)]
    by (auto simp: subSectionError_def subSectionVector_def split: prod.splits option.splits)
qed

lemma commitColumns_step_ok:
  assumes "unat (b_bloomTrieRatio b) \<le> length (b_sectionHeads b)"
    and "\<forall>j < unat (b_bloomTrieRatio b). subSectionError ext b i j = None"
  shows "commitColumns ext b (i # is) (Some tr) = commitColumns ext b is (Some (putColumn ext b tr i))"
proof -
  have "readSubSections ext b i [0..<unat (b_bloomTrieRatio b)] [] =
          Returns (concat (map (subSectionVector ext b i) [0..<unat (b_bloomTrieRatio b)]), None)"
    using assms readSubSections_ok [of "[0..<unat (b_bloomTrieRatio b)]" b ext i "[]"] by simp
  then show ?thesis
    by (simp add: putColumn_def bloomColumn_def bloomColumnKey_def PutUint16_be_bytes
        PutUint64_be_bytes)
qed

lemma commitColumns_ok:
  assumes "unat (b_bloomTrieRatio b) \<le> length (b_sectionHeads b)"
    and "\<forall>i \<in> set is. \<forall>j < unat (b_bloomTrieRatio b). subSectionError ext b i j = None"
  shows "commitColumns ext b is (Some tr) = Returns (Some (foldl (putColumn ext b) tr is), None)"
  using assms(2)
proof (induction "is" arbitrary: tr)
  case Nil
  then show ?case by simp
next
  case (Cons i "is")
  then show ?case
    using commitColumns_step_ok [OF assms(1), of ext i "is" tr] by simp
qed

lemma commitColumns_step_error:
  assumes "unat (b_bloomTrieRatio b) \<le> length (b_sectionHeads b)"
    and "j < unat (b_bloomTrieRatio b)"
    and "subSectionError ext b i j = Some e"
    and "\<forall>j' < j. subSectionError ext b i j' = None"
  shows "commitColumns ext b (i # is) t = Returns (t, Some e)"
proof -
  have split: "[0..<unat (b_bloomTrieRatio b)] = [0..<j] @ j # [Suc j..<unat (b_bloomTrieRatio b)]"
  proof -
    have "[0..<j + (unat (b_bloomTrieRatio b) - j)] = [0..<j] @ [j..<j + (unat (b_bloomTrieRatio b) - j)]"
      by (rule upt_add_eq_append) simp
    then show ?thesis
      using assms(2) by (simp add: upt_conv_Cons)
  qed
  have "readSubSections ext b i ([0..<j] @ j # [Suc j..<unat (b_bloomTrieRatio b)]) [] =
          Returns ([] @ concat (map (subSectionVector ext b i) [0..<j]), Some e)"
    using assms by (intro readSubSections_error) auto
  then show ?thesis
    using split by simp
qed

lemma commitColumns_error:
  assumes "unat (b_bloomTrieRatio b) \<le> length (b_sectionHeads b)"
    and "\<forall>i' \<in> set is. \<forall>j' < unat (b_bloomTrieRatio b). subSectionError ext b i' j' = None"
    and "j < unat (b_bloomTrieRatio b)"
    and "subSectionError ext b i j = Some e"
    and "\<forall>j' < j. subSectionError ext b i j' = None"
  shows "commitColumns ext b (is @ i # is') (Some tr) =
           Returns (Some (foldl (putColumn ext b) tr is), Some e)"
  using assms(2)
proof (induction "is" arbitrary: tr)
  case Nil
  then show ?case
    using commitColumns_step_error [OF assms(1,3,4,5)] by simp
next
  case (Cons i' "is")
  then show ?case
    using commitColumns_step_ok [OF assms(1), of ext i' "is @ i # is'" tr] by simp
qed

lemma upt_split: "i < n \<Longrightarrow> [0..<n] = [0..<i] @ i # [Suc i..<n]"
proof -
  assume "i < n"
  have "[0..<i + (n - i)] = [0..<i] @ [i..<i + (n - i)]"
    by (rule upt_add_eq_append) simp
  with \<open>i < n\<close> show ?thesis
    by (simp add: upt_conv_Cons)
qed

lemma bloomColumnKey_inject:
  assumes "i < 65536" and "i' < 65536" and "bloomColumnKey b i = bloomColumnKey b i'"
  shows "i = i'"
proof -
  from assms(3) have "be_bytes 2 (of_nat i :: uint16) = be_bytes 2 (of_nat i' :: uint16)"
    by (simp add: bloomColumnKey_def length_be_bytes)
  then have "(be_word (be_bytes 2 (of_nat i :: uint16)) :: uint16)
      = be_word (be_bytes 2 (of_nat i' :: uint16))"
    by simp
  then have "(of_nat i :: uint16) = of_nat i'"
    by (simp add: be_word_be_bytes take_bit_word_eq_self)
  then have "unat (of_nat i :: uint16) = unat (of_nat i' :: uint16)"
    by simp
  with assms(1,2) show ?thesis
    by (simp add: unat_of_nat take_bit_nat_eq_self)
qed

lemma openedBloomBackend_val:
  "openedBloomBackend =
     \<lparr>b_diskdb = emptyDatabase, b_triedb = [], b_section = 0, b_parentSectionSize = 32768,
      b_bloomTrieRatio = 1, b_trie = Some [], b_sectionHeads = [0]\<rparr>"
  by (simp add: openedBloomBackend_def clientBloomBackend_def BloomTrieIndexerBackend_Reset_def
      NewBloomTrieIndexer_def simpleCollaborators_def BloomTrieFrequency_def)

lemma brokenBloomBackend_val:
  "brokenBloomBackend =
     \<lparr>b_diskdb = failingDatabase, b_triedb = [], b_section = 0, b_parentSectionSize = 32768,
      b_bloomTrieRatio = 1, b_trie = Some [], b_sectionHeads = [0]\<rparr>"
  by (simp add: brokenBloomBackend_def BloomTrieIndexerBackend_Reset_def
      NewBloomTrieIndexer_def simpleCollaborators_def BloomTrieFrequency_def)

text \<open>
  C7: when the trie is open and no read or decompression fails, the loops of \<^verbatim>\<open>Commit\<close>
  go through the bit positions 0..2047 in order and do one thing for each: if the
  compressed concatenation of its sub-section vectors is not empty, it is inserted under
  the key made of the 2 big-endian bytes of the bit and the 8 big-endian bytes of the
  section; if it is empty, the leaf of that key is deleted. \<^verbatim>\<open>Commit\<close> goes on with the
  trie so built, and the keys of distinct bit positions are distinct.
\<close>

theorem bloom_Commit_columns:
  assumes "unat (b_bloomTrieRatio b) \<le> length (b_sectionHeads b)"
    and "b_trie b = Some t"
    and "\<forall>i < BloomBitLength. \<forall>j < unat (b_bloomTrieRatio b). subSectionError ext b i j = None"
  shows "commitColumns ext b [0..<BloomBitLength] (b_trie b) =
           Returns (Some (foldl (putColumn ext b) t [0..<BloomBitLength]), None)
   \<and> BloomTrieIndexerBackend_Commit ext b =
        commitSectionRoot ext b (foldl (putColumn ext b) t [0..<BloomBitLength])
   \<and> (\<forall>i < BloomBitLength. \<forall>i' < BloomBitLength.
         bloomColumnKey b i = bloomColumnKey b i' \<longrightarrow> i = i')"
proof -
  have loop: "commitColumns ext b [0..<BloomBitLength] (b_trie b) =
           Returns (Some (foldl (putColumn ext b) t [0..<BloomBitLength]), None)"
    using assms(3) by (simp add: assms(2) commitColumns_ok [OF assms(1)])
  have keys: "\<forall>i < BloomBitLength. \<forall>i' < BloomBitLength.
         bloomColumnKey b i = bloomColumnKey b i' \<longrightarrow> i = i'"
    by (auto simp: BloomBitLength_def intro: bloomColumnKey_inject)
  from loop keys show ?thesis
    by (simp add: BloomTrieIndexerBackend_Commit_def)
qed

theorem bloom_Commit_columns_witness:
  "BloomTrieIndexerBackend_Commit simpleCollaborators openedBloomBackend =
     commitSectionRoot simpleCollaborators openedBloomBackend
       (foldl (putColumn simpleCollaborators openedBloomBackend) [] [0..<BloomBitLength])
   \<and> putColumn simpleCollaborators openedBloomBackend [] 0 =
       [(bloomColumnKey openedBloomBackend 0, [255])]
   \<and> putColumn simpleCollaborators openedBloomBackend
        [(bloomColumnKey openedBloomBackend 0, [255])] 1 =
       [(bloomColumnKey openedBloomBackend 0, [255])]"
proof -
  have h1: "unat (b_bloomTrieRatio openedBloomBackend) \<le> length (b_sectionHeads openedBloomBackend)"
    by (simp add: openedBloomBackend_val)
  have h2: "b_trie openedBloomBackend = Some []"
    by (simp add: openedBloomBackend_val)
  have h3: "\<forall>i < BloomBitLength. \<forall>j < unat (b_bloomTrieRatio openedBloomBackend).
      subSectionError simpleCollaborators openedBloomBackend i j = None"
    by (simp add: openedBloomBackend_val subSectionError_def simpleCollaborators_def
        emptyDatabase_def)
  have keys: "\<forall>i < BloomBitLength. \<forall>i' < BloomBitLength.
      bloomColumnKey openedBloomBackend i = bloomColumnKey openedBloomBackend i' \<longrightarrow> i = i'"
    using bloom_Commit_columns [OF h1 h2 h3] by blast
  have k: "bloomColumnKey openedBloomBackend 0 \<noteq> bloomColumnKey openedBloomBackend 1"
    using keys [rule_format, of 0 1] by (auto simp: BloomBitLength_def)
  have p0: "putColumn simpleCollaborators openedBloomBackend [] 0 =
       [(bloomColumnKey openedBloomBackend 0, [255])]"
    by (simp add: putColumn_def bloomColumn_def subSectionVector_def openedBloomBackend_val
        simpleCollaborators_def emptyDatabase_def)
  have p1: "putColumn simpleCollaborators openedBloomBackend
        [(bloomColumnKey openedBloomBackend 0, [255])] 1 =
       [(bloomColumnKey openedBloomBackend 0, [255])]"
    using k
    by (simp add: putColumn_def bloomColumn_def subSectionVector_def simpleCollaborators_def)
  show ?thesis
    using bloom_Commit_columns [OF h1 h2 h3] p0 p1 by blast
qed

lemma bloom_Commit_error_diskdb:
  "BloomTrieIndexerBackend_Commit ext b = Returns (b', Some e') \<Longrightarrow> b_diskdb b' = b_diskdb b"
  by (auto simp: BloomTrieIndexerBackend_Commit_def commitSectionRoot_def Let_def
      split: outcome.splits prod.splits option.splits if_splits)

text \<open>
  C6: whenever \<^verbatim>\<open>Commit\<close> returns an error, the disk database, and so the root store, is
  as it was before; and when the trie is open and a read or a decompression fails, all
  those before it in the order of the loops having succeeded, \<^verbatim>\<open>Commit\<close> returns that
  error, having changed the open trie only.
\<close>

theorem bloom_Commit_all_or_nothing:
  "(BloomTrieIndexerBackend_Commit ext b = Returns (b', Some e') \<longrightarrow> b_diskdb b' = b_diskdb b)
   \<and> (unat (b_bloomTrieRatio b) \<le> length (b_sectionHeads b) \<and> b_trie b = Some t
        \<and> i < BloomBitLength \<and> j < unat (b_bloomTrieRatio b)
        \<and> subSectionError ext b i j = Some e
        \<and> (\<forall>i' j'. (i' < i \<or> i' = i \<and> j' < j) \<and> j' < unat (b_bloomTrieRatio b)
              \<longrightarrow> subSectionError ext b i' j' = None)
      \<longrightarrow> BloomTrieIndexerBackend_Commit ext b =
            Returns (b\<lparr>b_trie := Some (foldl (putColumn ext b) t [0..<i])\<rparr>, Some e))"
proof (intro conjI impI)
  assume "BloomTrieIndexerBackend_Commit ext b = Returns (b', Some e')"
  then show "b_diskdb b' = b_diskdb b"
    by (rule bloom_Commit_error_diskdb)
next
  assume a: "unat (b_bloomTrieRatio b) \<le> length (b_sectionHeads b) \<and> b_trie b = Some t
        \<and> i < BloomBitLength \<and> j < unat (b_bloomTrieRatio b)
        \<and> subSectionError ext b i j = Some e
        \<and> (\<forall>i' j'. (i' < i \<or> i' = i \<and> j' < j) \<and> j' < unat (b_bloomTrieRatio b)
              \<longrightarrow> subSectionError ext b i' j' = None)"
  then have split: "[0..<BloomBitLength] = [0..<i] @ i # [Suc i..<BloomBitLength]"
    by (simp add: upt_split)
  have "commitColumns ext b ([0..<i] @ i # [Suc i..<BloomBitLength]) (Some t) =
          Returns (Some (foldl (putColumn ext b) t [0..<i]), Some e)"
    using a by (intro commitColumns_error) auto
  with a split show "BloomTrieIndexerBackend_Commit ext b =
            Returns (b\<lparr>b_trie := Some (foldl (putColumn ext b) t [0..<i])\<rparr>, Some e)"
    by (simp add: BloomTrieIndexerBackend_Commit_def)
qed

theorem bloom_Commit_all_or_nothing_witness:
  "BloomTrieIndexerBackend_Commit simpleCollaborators brokenBloomBackend =
     Returns (brokenBloomBackend, Some ErrStorage)
   \<and> b_diskdb brokenBloomBackend = failingDatabase"
proof -
  have e: "subSectionError simpleCollaborators brokenBloomBackend 0 0 = Some ErrStorage"
    by (simp add: brokenBloomBackend_val subSectionError_def simpleCollaborators_def
        failingDatabase_def)
  have t: "brokenBloomBackend\<lparr>b_trie := Some []\<rparr> = brokenBloomBackend"
    by (simp add: brokenBloomBackend_val)
  have h: "unat (b_bloomTrieRatio brokenBloomBackend) \<le> length (b_sectionHeads brokenBloomBackend)
      \<and> b_trie brokenBloomBackend = Some []
      \<and> 0 < BloomBitLength \<and> 0 < unat (b_bloomTrieRatio brokenBloomBackend)"
    by (simp add: brokenBloomBackend_val BloomBitLength_def)
  have c: "BloomTrieIndexerBackend_Commit simpleCollaborators brokenBloomBackend =
     Returns (brokenBloomBackend, Some ErrStorage)"
    using bloom_Commit_all_or_nothing
      [of simpleCollaborators brokenBloomBackend brokenBloomBackend ErrStorage "[]" 0 0 ErrStorage]
      e h t by simp
  have "b_diskdb brokenBloomBackend = failingDatabase"
    using bloom_Commit_all_or_nothing
      [of simpleCollaborators brokenBloomBackend brokenBloomBackend ErrStorage "[]" 0 0 ErrStorage]
      c by (simp add: brokenBloomBackend_val)
  with c show ?thesis by simp
qed

end
